theory Spec2Isabelle
  imports Main
begin

section \<open>The authentication service of \<^verbatim>\<open>src/dev/src/modules/auth/auth.service.ts\<close>\<close>

text \<open>
  The service has three public operations, \<^verbatim>\<open>register\<close>, \<^verbatim>\<open>login\<close> and
  \<^verbatim>\<open>validateUser\<close>, and one private helper, \<^verbatim>\<open>generateTokens\<close>. Each is an
  asynchronous method that awaits its collaborators one after the other: the entity
  manager (\<^verbatim>\<open>em.findOne\<close>, \<^verbatim>\<open>em.persistAndFlush\<close>), \<^verbatim>\<open>bcrypt\<close> and the
  \<^verbatim>\<open>JwtService\<close>. The embedding threads an explicit state through every method:
  the rows of the three tables and the list of awaited calls made so far. A method
  returns its result (an HTTP exception on the left, the returned object on the right)
  together with the state it leaves behind, so that what a failing call has already
  written stays visible.

  The collaborators are libraries. They are assumed to return: a call that ends in a
  driver error or a signing error is outside the model.
\<close>

subsection \<open>Entities\<close>

type_synonym ident = string

text \<open>A \<^verbatim>\<open>Date\<close> is its number of milliseconds since the epoch.\<close>

type_synonym date = int

text \<open>
  Modelled from the spec: the enum \<^verbatim>\<open>UserRole\<close> is declared in
  \<^verbatim>\<open>db/entitis/Users\<close>, which is not among the sources. The service names one
  member, \<^verbatim>\<open>OWNER\<close>; the spec's data model says the role is "enumerated: OWNER and
  others".
\<close>

datatype UserRole = OWNER | OtherRole string

text \<open>
  Modelled from the spec: the entity classes \<^verbatim>\<open>Organization\<close>, \<^verbatim>\<open>Users\<close> and
  \<^verbatim>\<open>Session\<close> are declared in \<^verbatim>\<open>db/entitis\<close>, which is not among the sources.
  Their fields are the ones the service passes to \<^verbatim>\<open>em.create\<close>, plus the primary key
  \<^verbatim>\<open>id\<close> it reads back; they agree with the spec's data model. The service tests
  \<^verbatim>\<open>createOrganization.userIds\<close> for truthiness, so that field may be absent.
\<close>

record Organization =
  organization_id :: ident
  organization_name :: string
  organization_createdAt :: date
  organization_updatedAt :: date
  organization_userIds :: "ident list option"

record Users =
  users_id :: ident
  users_email :: string
  users_passwordHash :: string
  users_role :: UserRole
  users_isActive :: bool
  users_isEmailVerified :: bool
  users_createdAt :: date
  users_updatedAt :: date
  users_organizationId :: ident
  users_projectIds :: "ident list"

subsection \<open>Tokens\<close>

text \<open>
  The object handed to \<^verbatim>\<open>signAsync\<close> as payload. The interface \<^verbatim>\<open>JwtPayload\<close> of
  the source lists \<^verbatim>\<open>sub\<close>, \<^verbatim>\<open>email\<close> and \<^verbatim>\<open>role\<close>; \<^verbatim>\<open>register\<close> passes object
  literals with \<^verbatim>\<open>sub\<close> alone or with \<^verbatim>\<open>sub\<close> and \<^verbatim>\<open>jti\<close>, so every property
  but \<^verbatim>\<open>sub\<close> may be absent.
\<close>

record JwtPayload =
  payload_sub :: ident
  payload_email :: "string option"
  payload_role :: "UserRole option"
  payload_jti :: "string option"

text \<open>The second argument of \<^verbatim>\<open>signAsync\<close>; each option may be \<^verbatim>\<open>undefined\<close>.\<close>

record JwtSignOptions =
  options_secret :: "string option"
  options_expiresIn :: "string option"
  options_audience :: "string option"
  options_issuer :: "string option"

text \<open>
  A token is the string \<^verbatim>\<open>header.payload.signature\<close>. The embedding keeps what the
  string encodes rather than its characters: the payload that was signed and the options
  it was signed with (the secret stands for the signature made with it). Decoding a
  token gives back the claims of its payload.
\<close>

record jwt =
  jwt_payload :: JwtPayload
  jwt_options :: JwtSignOptions

definition signAsync :: "JwtPayload \<Rightarrow> JwtSignOptions \<Rightarrow> jwt" where
  "signAsync payload options = \<lparr>jwt_payload = payload, jwt_options = options\<rparr>"

definition decode :: "jwt \<Rightarrow> JwtPayload" where
  "decode token = jwt_payload token"

record Tokens =
  accessToken :: jwt
  refreshToken :: jwt

record Session =
  session_id :: ident
  session_accessToken :: jwt
  session_refreshToken :: jwt
  session_user :: ident
  session_expiresAt :: date
  session_revoked :: bool
  session_createdAt :: date

subsection \<open>Requests, results and errors\<close>

text \<open>
  Modelled from the spec: \<^verbatim>\<open>RegisterDto\<close> and \<^verbatim>\<open>LoginDto\<close> are declared in
  \<^verbatim>\<open>src/modules/auth/dto\<close>, which is not among the sources. The fields are the ones
  the service reads. \<^verbatim>\<open>register\<close> spreads the whole DTO into \<^verbatim>\<open>em.create(Users, ...)\<close>;
  of its fields only \<^verbatim>\<open>email\<close> is a property of the entity.
\<close>

record RegisterDto =
  registerDto_email :: string
  registerDto_password :: string
  registerDto_organizationName :: string

record LoginDto =
  loginDto_email :: string
  loginDto_password :: string

datatype HttpException = ConflictException string | UnauthorizedException string

text \<open>
  The \<^verbatim>\<open>user\<close> of a result is a plain JavaScript object made by object rest
  destructuring: a list of property names with their values.
\<close>

datatype jsvalue =
    JString string
  | JBoolean bool
  | JDate date
  | JArray "string list"
  | JRole UserRole

type_synonym object = "(string \<times> jsvalue) list"

record AuthResult =
  user :: object
  tokens :: Tokens

text \<open>The own enumerable properties of a \<^verbatim>\<open>Users\<close> entity.\<close>

definition Users_properties :: "Users \<Rightarrow> object" where
  "Users_properties u =
    [(''id'', JString (users_id u)),
     (''email'', JString (users_email u)),
     (''passwordHash'', JString (users_passwordHash u)),
     (''role'', JRole (users_role u)),
     (''isActive'', JBoolean (users_isActive u)),
     (''isEmailVerified'', JBoolean (users_isEmailVerified u)),
     (''createdAt'', JDate (users_createdAt u)),
     (''updatedAt'', JDate (users_updatedAt u)),
     (''organizationId'', JString (users_organizationId u)),
     (''projectIds'', JArray (users_projectIds u))]"

text \<open>
  \<^verbatim>\<open>const { k1, ..., kn, ...rest } = obj\<close>: \<^verbatim>\<open>rest\<close> holds every property of
  \<^verbatim>\<open>obj\<close> but the named ones.
\<close>

definition object_rest :: "string list \<Rightarrow> object \<Rightarrow> object" where
  "object_rest named obj = filter (\<lambda>kv. fst kv \<notin> set named) obj"

definition has_property :: "object \<Rightarrow> string \<Rightarrow> bool" where
  "has_property obj k = (k \<in> set (map fst obj))"

subsection \<open>What the service is given\<close>

text \<open>
  Modelled from the spec: \<^verbatim>\<open>jwtConfig\<close> and \<^verbatim>\<open>refreshTokenConfig\<close> are constants of
  \<^verbatim>\<open>src/config/jwt.config\<close>, which is not among the sources; they are parameters
  here. The source reads \<^verbatim>\<open>jwtConfig.secret\<close>, \<^verbatim>\<open>jwtConfig.signOptions?.expiresIn\<close>,
  \<^verbatim>\<open>?.issuer\<close> and \<^verbatim>\<open>?.audience\<close>, and \<^verbatim>\<open>refreshTokenConfig.secret\<close> and
  \<^verbatim>\<open>.expiresIn\<close>.
\<close>

record JwtModuleOptions =
  module_secret :: "string option"
  module_signOptions :: "JwtSignOptions option"

record RefreshTokenConfig =
  refresh_secret :: "string option"
  refresh_expiresIn :: "string option"

text \<open>
  Everything one call takes from outside the service: the two \<^verbatim>\<open>bcrypt\<close> functions
  (\<open>bcrypt_hash\<close> with the salt it draws fixed), the value of the \<open>k\<close>-th reading of the
  system clock during the call, the UUID \<^verbatim>\<open>crypto.randomUUID()\<close> returns, the two
  environment variables, the two configuration constants, and the primary keys the
  store gives to the entities the call creates.
\<close>

record env =
  bcrypt_hash :: "string \<Rightarrow> nat \<Rightarrow> string"
  bcrypt_compare :: "string \<Rightarrow> string \<Rightarrow> bool"
  clock :: "nat \<Rightarrow> date"
  randomUUID :: string
  AT_SECRET :: "string option"
  RT_SECRET :: "string option"
  jwtConfig :: JwtModuleOptions
  refreshTokenConfig :: RefreshTokenConfig
  Organization_pk :: ident
  Users_pk :: ident
  Session_pk :: ident

subsection \<open>The store and the entity manager\<close>

record database =
  organizations :: "Organization list"
  users :: "Users list"
  sessions :: "Session list"

text \<open>The calls a method awaits, in the order it makes them.\<close>

datatype call = Em_findOne | Em_persistAndFlush | Bcrypt_hash | Bcrypt_compare | Jwt_signAsync

record world =
  db :: database
  calls :: "call list"

definition await :: "call \<Rightarrow> world \<Rightarrow> world" where
  "await c w = w\<lparr>calls := calls w @ [c]\<rparr>"

text \<open>The calls made between an earlier state and a later one.\<close>

definition calls_since :: "world \<Rightarrow> world \<Rightarrow> call list" where
  "calls_since w w' = drop (length (calls w)) (calls w')"

text \<open>\<^verbatim>\<open>em.findOne(Users, where)\<close>: the first row that satisfies the filter, or null.\<close>

definition findOne_Users :: "(Users \<Rightarrow> bool) \<Rightarrow> world \<Rightarrow> Users option \<times> world" where
  "findOne_Users filter_by w = (find filter_by (users (db w)), await Em_findOne w)"

text \<open>
  \<^verbatim>\<open>em.persistAndFlush(entity)\<close> writes the entity's row: the row with the entity's
  primary key is replaced, and an entity whose key is not in the table is added.
\<close>

definition upsert :: "('a \<Rightarrow> ident) \<Rightarrow> 'a \<Rightarrow> 'a list \<Rightarrow> 'a list" where
  "upsert key e rows =
    (if key e \<in> set (map key rows)
     then map (\<lambda>r. if key r = key e then e else r) rows
     else rows @ [e])"

definition persistAndFlush_Organization :: "Organization \<Rightarrow> world \<Rightarrow> world" where
  "persistAndFlush_Organization e w =
    await Em_persistAndFlush
      (w\<lparr>db := (db w)\<lparr>organizations := upsert organization_id e (organizations (db w))\<rparr>\<rparr>)"

definition persistAndFlush_Users :: "Users \<Rightarrow> world \<Rightarrow> world" where
  "persistAndFlush_Users e w =
    await Em_persistAndFlush
      (w\<lparr>db := (db w)\<lparr>users := upsert users_id e (users (db w))\<rparr>\<rparr>)"

definition persistAndFlush_Session :: "Session \<Rightarrow> world \<Rightarrow> world" where
  "persistAndFlush_Session e w =
    await Em_persistAndFlush
      (w\<lparr>db := (db w)\<lparr>sessions := upsert session_id e (sessions (db w))\<rparr>\<rparr>)"

subsection \<open>The service\<close>

text \<open>
  \<^verbatim>\<open>register\<close>, lines 34 to 119. The clock is read six times: for the two timestamps
  of the organization, the two of the user, \<^verbatim>\<open>Date.now()\<close> in the session's expiry and
  the session's \<^verbatim>\<open>createdAt\<close>. The source's \<^verbatim>\<open>user\<close> is \<open>created\<close> here, and
  the organization after the push is \<open>updatedOrganization\<close>: \<open>user\<close> names the field of
  the result, and a \<open>let\<close> does not assign.
\<close>

definition register :: "env \<Rightarrow> RegisterDto \<Rightarrow> world \<Rightarrow> (HttpException + AuthResult) \<times> world" where
  "register e registerDto w0 =
    (let (existingUser, w1) =
           findOne_Users (\<lambda>u. users_email u = registerDto_email registerDto) w0
     in case existingUser of
          Some _ \<Rightarrow> (Inl (ConflictException ''User with this email already exists''), w1)
        | None \<Rightarrow>
           (let hashedPassword = bcrypt_hash e (registerDto_password registerDto) 12;
                w2 = await Bcrypt_hash w1;
                createOrganization =
                  \<lparr>organization_id = Organization_pk e,
                   organization_name = registerDto_organizationName registerDto,
                   organization_createdAt = clock e 0,
                   organization_updatedAt = clock e 1,
                   organization_userIds = Some []\<rparr>;
                w3 = persistAndFlush_Organization createOrganization w2;
                created =
                  \<lparr>users_id = Users_pk e,
                   users_email = registerDto_email registerDto,
                   users_passwordHash = hashedPassword,
                   users_role = OWNER,
                   users_isActive = True,
                   users_isEmailVerified = False,
                   users_createdAt = clock e 2,
                   users_updatedAt = clock e 3,
                   users_organizationId = organization_id createOrganization,
                   users_projectIds = []\<rparr>;
                w4 = persistAndFlush_Users created w3;
                updatedOrganization =
                  (case organization_userIds createOrganization of
                     Some ids \<Rightarrow>
                       createOrganization\<lparr>organization_userIds := Some (ids @ [users_id created])\<rparr>
                   | None \<Rightarrow>
                       createOrganization\<lparr>organization_userIds := Some [users_id created]\<rparr>);
                w5 = persistAndFlush_Organization updatedOrganization w4;
                access =
                  signAsync
                    \<lparr>payload_sub = users_id created, payload_email = None,
                     payload_role = None, payload_jti = None\<rparr>
                    \<lparr>options_secret = AT_SECRET e, options_expiresIn = Some ''15m'',
                     options_audience = Some ''spa'', options_issuer = Some ''your-app''\<rparr>;
                w6 = await Jwt_signAsync w5;
                refresh =
                  signAsync
                    \<lparr>payload_sub = users_id created, payload_email = None,
                     payload_role = None, payload_jti = Some (randomUUID e)\<rparr>
                    \<lparr>options_secret = RT_SECRET e, options_expiresIn = Some ''7d'',
                     options_audience = Some ''spa'', options_issuer = Some ''your-app''\<rparr>;
                w7 = await Jwt_signAsync w6;
                session =
                  \<lparr>session_id = Session_pk e,
                   session_accessToken = access,
                   session_refreshToken = refresh,
                   session_user = users_id created,
                   session_expiresAt = clock e 4 + 7 * 24 * 60 * 60 * 1000,
                   session_revoked = False,
                   session_createdAt = clock e 5\<rparr>;
                w8 = persistAndFlush_Session session w7;
                userWithoutSensitiveData = object_rest [] (Users_properties created)
            in (Inr \<lparr>user = userWithoutSensitiveData,
                     tokens = \<lparr>accessToken = access, refreshToken = refresh\<rparr>\<rparr>, w8)))"

text \<open>
  \<^verbatim>\<open>generateTokens\<close>, lines 235 to 273. \<^verbatim>\<open>jwtConfig.signOptions?.x\<close> is
  \<^verbatim>\<open>undefined\<close> when \<^verbatim>\<open>signOptions\<close> is.
\<close>

definition generateTokens :: "env \<Rightarrow> ident \<Rightarrow> string \<Rightarrow> UserRole \<Rightarrow> world \<Rightarrow> Tokens \<times> world" where
  "generateTokens e userId email role w =
    (let signOptions = module_signOptions (jwtConfig e);
         access =
           signAsync
             \<lparr>payload_sub = userId, payload_email = Some email,
              payload_role = Some role, payload_jti = None\<rparr>
             \<lparr>options_secret = module_secret (jwtConfig e),
              options_expiresIn = Option.bind signOptions options_expiresIn,
              options_audience = Option.bind signOptions options_audience,
              options_issuer = Option.bind signOptions options_issuer\<rparr>;
         refresh =
           signAsync
             \<lparr>payload_sub = userId, payload_email = Some email,
              payload_role = Some role, payload_jti = None\<rparr>
             \<lparr>options_secret = refresh_secret (refreshTokenConfig e),
              options_expiresIn = refresh_expiresIn (refreshTokenConfig e),
              options_audience = Option.bind signOptions options_audience,
              options_issuer = Option.bind signOptions options_issuer\<rparr>
     in (\<lparr>accessToken = access, refreshToken = refresh\<rparr>,
         await Jwt_signAsync (await Jwt_signAsync w)))"

text \<open>
  \<^verbatim>\<open>login\<close>, lines 121 to 156. The clock is read once, for \<^verbatim>\<open>updatedAt\<close>. The
  source's \<^verbatim>\<open>user\<close> is \<open>u\<close>, \<open>touched\<close> once its \<^verbatim>\<open>updatedAt\<close> is set, and its
  \<^verbatim>\<open>tokens\<close> is \<open>issued\<close>.
\<close>

definition login :: "env \<Rightarrow> LoginDto \<Rightarrow> world \<Rightarrow> (HttpException + AuthResult) \<times> world" where
  "login e loginDto w0 =
    (let (found, w1) = findOne_Users (\<lambda>u. users_email u = loginDto_email loginDto) w0
     in case found of
          None \<Rightarrow> (Inl (UnauthorizedException ''User not found''), w1)
        | Some u \<Rightarrow>
            if \<not> users_isActive u
            then (Inl (UnauthorizedException ''User account is deactivated''), w1)
            else
              (let isPasswordValid =
                     bcrypt_compare e (loginDto_password loginDto) (users_passwordHash u);
                   w2 = await Bcrypt_compare w1
               in if \<not> isPasswordValid
                  then (Inl (UnauthorizedException ''Password is incorrect''), w2)
                  else
                    (let (issued, w3) =
                           generateTokens e (users_id u) (users_email u) (users_role u) w2;
                         touched = u\<lparr>users_updatedAt := clock e 0\<rparr>;
                         w4 = persistAndFlush_Users touched w3;
                         userWithoutSensitiveData =
                           object_rest [''passwordHash''] (Users_properties touched)
                     in (Inr \<lparr>user = userWithoutSensitiveData, tokens = issued\<rparr>, w4))))"

text \<open>\<^verbatim>\<open>validateUser\<close>, lines 220 to 223.\<close>

definition validateUser :: "ident \<Rightarrow> world \<Rightarrow> Users option \<times> world" where
  "validateUser i w = findOne_Users (\<lambda>u. users_id u = i \<and> users_isActive u) w"

subsection \<open>A store with two users\<close>

text \<open>
  A concrete store and environment, on which the theorems below are tried: one
  organization, the active user \<open>alice\<close> and the deactivated user \<open>bob\<close>, both with
  the password \<^verbatim>\<open>pw\<close>. The stand-in for \<^verbatim>\<open>bcrypt\<close> prefixes the password.
\<close>

definition example_env :: env where
  "example_env =
    \<lparr>bcrypt_hash = (\<lambda>password rounds. ''$2a$'' @ password),
     bcrypt_compare = (\<lambda>password hash. hash = ''$2a$'' @ password),
     clock = (\<lambda>k. 1000 + int k),
     randomUUID = ''uuid'',
     AT_SECRET = Some ''at'',
     RT_SECRET = Some ''rt'',
     jwtConfig =
       \<lparr>module_secret = Some ''js'',
        module_signOptions =
          Some \<lparr>options_secret = None, options_expiresIn = Some ''15m'',
                options_audience = Some ''spa'', options_issuer = Some ''app''\<rparr>\<rparr>,
     refreshTokenConfig = \<lparr>refresh_secret = Some ''rs'', refresh_expiresIn = Some ''7d''\<rparr>,
     Organization_pk = ''o2'',
     Users_pk = ''u3'',
     Session_pk = ''s1''\<rparr>"

definition acme :: Organization where
  "acme =
    \<lparr>organization_id = ''o1'', organization_name = ''Acme'', organization_createdAt = 1,
     organization_updatedAt = 1, organization_userIds = Some [''u1'', ''u2'']\<rparr>"

definition alice :: Users where
  "alice =
    \<lparr>users_id = ''u1'', users_email = ''a@x'', users_passwordHash = ''$2a$pw'',
     users_role = OWNER, users_isActive = True, users_isEmailVerified = False,
     users_createdAt = 1, users_updatedAt = 1, users_organizationId = ''o1'',
     users_projectIds = []\<rparr>"

definition bob :: Users where
  "bob =
    \<lparr>users_id = ''u2'', users_email = ''b@x'', users_passwordHash = ''$2a$pw'',
     users_role = OtherRole ''member'', users_isActive = False, users_isEmailVerified = False,
     users_createdAt = 2, users_updatedAt = 2, users_organizationId = ''o1'',
     users_projectIds = []\<rparr>"

definition example_world :: world where
  "example_world =
    \<lparr>db = \<lparr>organizations = [acme], users = [alice, bob], sessions = []\<rparr>, calls = []\<rparr>"

definition register_carol :: RegisterDto where
  "register_carol =
    \<lparr>registerDto_email = ''c@x'', registerDto_password = ''pw'',
     registerDto_organizationName = ''Cargo''\<rparr>"

definition register_alice :: RegisterDto where
  "register_alice =
    \<lparr>registerDto_email = ''a@x'', registerDto_password = ''pw'',
     registerDto_organizationName = ''Acme''\<rparr>"

definition login_alice :: LoginDto where
  "login_alice = \<lparr>loginDto_email = ''a@x'', loginDto_password = ''pw''\<rparr>"

definition login_alice_wrong :: LoginDto where
  "login_alice_wrong = \<lparr>loginDto_email = ''a@x'', loginDto_password = ''no''\<rparr>"

definition login_bob :: LoginDto where
  "login_bob = \<lparr>loginDto_email = ''b@x'', loginDto_password = ''pw''\<rparr>"

definition login_carol :: LoginDto where
  "login_carol = \<lparr>loginDto_email = ''c@x'', loginDto_password = ''pw''\<rparr>"

lemmas example_defs =
  example_env_def example_world_def acme_def alice_def bob_def register_carol_def
  register_alice_def login_alice_def login_alice_wrong_def login_bob_def login_carol_def

section \<open>Properties\<close>

subsection \<open>The store\<close>

lemma upsert_fresh: "key e \<notin> set (map key rows) \<Longrightarrow> upsert key e rows = rows @ [e]"
  by (simp add: upsert_def)

lemma upsert_last:
  assumes "key e \<notin> set (map key rows)" and "key e' = key e"
  shows "upsert key e' (rows @ [e]) = rows @ [e']"
proof -
  have "\<forall>r\<in>set rows. key r \<noteq> key e'"
    using assms by (auto simp: image_iff)
  then have "map (\<lambda>r. if key r = key e' then e' else r) rows = rows"
    by (simp add: map_idI)
  then show ?thesis
    using assms by (simp add: upsert_def)
qed

lemma find_by_unique_key:
  assumes "distinct (map key rows)" and "r \<in> set rows"
  shows "find (\<lambda>x. key x = key r) rows = Some r"
  using assms by (induction rows) auto

lemma find_by_unique_key_and:
  assumes "distinct (map key rows)" and "r \<in> set rows"
  shows "find (\<lambda>x. key x = key r \<and> P x) rows = (if P r then Some r else None)"
  using assms by (induction rows) (auto simp: find_None_iff image_iff)

lemma find_present:
  assumes "\<exists>x\<in>set rows. P x"
  obtains x where "find P rows = Some x"
  using assms by (cases "find P rows") (auto simp: find_None_iff)

subsection \<open>The paths through \<open>register\<close> and \<open>login\<close>\<close>

lemma register_conflict:
  assumes "find (\<lambda>u. users_email u = registerDto_email dto) (users (db w)) = Some x"
  shows "register e dto w =
    (Inl (ConflictException ''User with this email already exists''), await Em_findOne w)"
  using assms by (simp add: register_def findOne_Users_def)

lemma login_not_found:
  assumes "find (\<lambda>u. users_email u = loginDto_email dto) (users (db w)) = None"
  shows "login e dto w = (Inl (UnauthorizedException ''User not found''), await Em_findOne w)"
  using assms by (simp add: login_def findOne_Users_def)

lemma login_deactivated:
  assumes "find (\<lambda>u. users_email u = loginDto_email dto) (users (db w)) = Some u"
    and "\<not> users_isActive u"
  shows "login e dto w =
    (Inl (UnauthorizedException ''User account is deactivated''), await Em_findOne w)"
  using assms by (simp add: login_def findOne_Users_def)

lemma login_wrong_password:
  assumes "find (\<lambda>u. users_email u = loginDto_email dto) (users (db w)) = Some u"
    and "users_isActive u"
    and "\<not> bcrypt_compare e (loginDto_password dto) (users_passwordHash u)"
  shows "login e dto w =
    (Inl (UnauthorizedException ''Password is incorrect''),
     await Bcrypt_compare (await Em_findOne w))"
  using assms by (simp add: login_def findOne_Users_def Let_def)

lemma login_success:
  assumes "find (\<lambda>u. users_email u = loginDto_email dto) (users (db w)) = Some u"
    and "users_isActive u"
    and "bcrypt_compare e (loginDto_password dto) (users_passwordHash u)"
  shows "login e dto w =
    (Inr \<lparr>user = object_rest [''passwordHash'']
                   (Users_properties (u\<lparr>users_updatedAt := clock e 0\<rparr>)),
          tokens = fst (generateTokens e (users_id u) (users_email u) (users_role u)
                     (await Bcrypt_compare (await Em_findOne w)))\<rparr>,
     persistAndFlush_Users (u\<lparr>users_updatedAt := clock e 0\<rparr>)
       (snd (generateTokens e (users_id u) (users_email u) (users_role u)
          (await Bcrypt_compare (await Em_findOne w)))))"
  using assms by (simp add: login_def findOne_Users_def Let_def split: prod.splits)

subsection \<open>The user a result carries\<close>

text \<open>
  \<open>login\<close> takes \<^verbatim>\<open>passwordHash\<close> out of the user it returns (line 154);
  \<open>register\<close> destructures with the rest pattern alone (line 114).
\<close>

lemma login_user_without_passwordHash:
  assumes "fst (login e dto w) = Inr r"
  shows "\<not> has_property (user r) ''passwordHash''"
proof -
  let ?found = "find (\<lambda>u. users_email u = loginDto_email dto) (users (db w))"
  from assms obtain u where u: "?found = Some u" and active: "users_isActive u"
    and valid: "bcrypt_compare e (loginDto_password dto) (users_passwordHash u)"
    by (cases ?found)
       (auto simp: login_def findOne_Users_def Let_def split: if_splits prod.splits)
  from login_success [OF u active valid] assms show ?thesis
    by (auto simp: has_property_def object_rest_def)
qed

lemma register_user_with_passwordHash:
  assumes "fst (register e dto w) = Inr r"
  shows "map_of (user r) ''passwordHash'' =
    Some (JString (bcrypt_hash e (registerDto_password dto) 12))"
  using assms
  by (cases "find (\<lambda>u. users_email u = registerDto_email dto) (users (db w))")
     (auto simp: register_def findOne_Users_def Let_def object_rest_def Users_properties_def)

subsection \<open>The payloads of the tokens a result carries\<close>

text \<open>
  What each path signs. \<open>register\<close> signs the literals \<^verbatim>\<open>{ sub: user.id }\<close> and
  \<^verbatim>\<open>{ sub: user.id, jti: crypto.randomUUID() }\<close> with the secrets of the environment
  (lines 82 to 99); \<open>login\<close>, through \<open>generateTokens\<close>, signs
  \<^verbatim>\<open>{ sub: userId, email, role }\<close> twice with the configured secrets (lines 240 to
  267). In both paths the subject is the id of the user the result carries.
\<close>

lemma issued_tokens_payloads:
  "(\<forall>r. fst (register e rdto w) = Inr r \<longrightarrow>
      map_of (user r) ''id'' = Some (JString (Users_pk e))
    \<and> decode (accessToken (tokens r)) =
        \<lparr>payload_sub = Users_pk e, payload_email = None,
         payload_role = None, payload_jti = None\<rparr>
    \<and> decode (refreshToken (tokens r)) =
        \<lparr>payload_sub = Users_pk e, payload_email = None,
         payload_role = None, payload_jti = Some (randomUUID e)\<rparr>
    \<and> options_secret (jwt_options (accessToken (tokens r))) = AT_SECRET e
    \<and> options_secret (jwt_options (refreshToken (tokens r))) = RT_SECRET e)
   \<and> (\<forall>r. fst (login e ldto w) = Inr r \<longrightarrow>
      (\<exists>u. find (\<lambda>x. users_email x = loginDto_email ldto) (users (db w)) = Some u
        \<and> map_of (user r) ''id'' = Some (JString (users_id u))
        \<and> decode (accessToken (tokens r)) =
            \<lparr>payload_sub = users_id u, payload_email = Some (users_email u),
             payload_role = Some (users_role u), payload_jti = None\<rparr>
        \<and> decode (refreshToken (tokens r)) =
            \<lparr>payload_sub = users_id u, payload_email = Some (users_email u),
             payload_role = Some (users_role u), payload_jti = None\<rparr>
        \<and> options_secret (jwt_options (accessToken (tokens r))) = module_secret (jwtConfig e)
        \<and> options_secret (jwt_options (refreshToken (tokens r))) =
            refresh_secret (refreshTokenConfig e)))"
proof (intro conjI allI impI)
  fix r
  assume ok: "fst (register e rdto w) = Inr r"
  then have r: "r =
      \<lparr>user = Users_properties
         \<lparr>users_id = Users_pk e,
          users_email = registerDto_email rdto,
          users_passwordHash = bcrypt_hash e (registerDto_password rdto) 12,
          users_role = OWNER, users_isActive = True, users_isEmailVerified = False,
          users_createdAt = clock e 2, users_updatedAt = clock e 3,
          users_organizationId = Organization_pk e, users_projectIds = []\<rparr>,
       tokens =
         \<lparr>accessToken =
            signAsync
              \<lparr>payload_sub = Users_pk e, payload_email = None,
               payload_role = None, payload_jti = None\<rparr>
              \<lparr>options_secret = AT_SECRET e, options_expiresIn = Some ''15m'',
               options_audience = Some ''spa'', options_issuer = Some ''your-app''\<rparr>,
          refreshToken =
            signAsync
              \<lparr>payload_sub = Users_pk e, payload_email = None,
               payload_role = None, payload_jti = Some (randomUUID e)\<rparr>
              \<lparr>options_secret = RT_SECRET e, options_expiresIn = Some ''7d'',
               options_audience = Some ''spa'', options_issuer = Some ''your-app''\<rparr>\<rparr>\<rparr>"
    by (cases "find (\<lambda>u. users_email u = registerDto_email rdto) (users (db w))")
       (simp_all add: register_def findOne_Users_def Let_def object_rest_def)
  show "map_of (user r) ''id'' = Some (JString (Users_pk e))"
    by (simp add: r Users_properties_def)
  show "decode (accessToken (tokens r)) =
      \<lparr>payload_sub = Users_pk e, payload_email = None,
       payload_role = None, payload_jti = None\<rparr>"
    by (simp add: r signAsync_def decode_def)
  show "decode (refreshToken (tokens r)) =
      \<lparr>payload_sub = Users_pk e, payload_email = None,
       payload_role = None, payload_jti = Some (randomUUID e)\<rparr>"
    by (simp add: r signAsync_def decode_def)
  show "options_secret (jwt_options (accessToken (tokens r))) = AT_SECRET e"
    by (simp add: r signAsync_def)
  show "options_secret (jwt_options (refreshToken (tokens r))) = RT_SECRET e"
    by (simp add: r signAsync_def)
next
  fix r
  assume ok: "fst (login e ldto w) = Inr r"
  let ?found = "find (\<lambda>u. users_email u = loginDto_email ldto) (users (db w))"
  from ok obtain u where u: "?found = Some u" and active: "users_isActive u"
    and valid: "bcrypt_compare e (loginDto_password ldto) (users_passwordHash u)"
    by (cases ?found)
       (auto simp: login_def findOne_Users_def Let_def split: if_splits prod.splits)
  from login_success [OF u active valid] ok have r: "r =
      \<lparr>user = object_rest [''passwordHash'']
                (Users_properties (u\<lparr>users_updatedAt := clock e 0\<rparr>)),
       tokens = fst (generateTokens e (users_id u) (users_email u) (users_role u)
                  (await Bcrypt_compare (await Em_findOne w)))\<rparr>"
    by simp
  have "map_of (user r) ''id'' = Some (JString (users_id u))
    \<and> decode (accessToken (tokens r)) =
        \<lparr>payload_sub = users_id u, payload_email = Some (users_email u),
         payload_role = Some (users_role u), payload_jti = None\<rparr>
    \<and> decode (refreshToken (tokens r)) =
        \<lparr>payload_sub = users_id u, payload_email = Some (users_email u),
         payload_role = Some (users_role u), payload_jti = None\<rparr>
    \<and> options_secret (jwt_options (accessToken (tokens r))) = module_secret (jwtConfig e)
    \<and> options_secret (jwt_options (refreshToken (tokens r))) =
        refresh_secret (refreshTokenConfig e)"
    by (simp add: r generateTokens_def Let_def signAsync_def decode_def
        Users_properties_def object_rest_def)
  with u show "\<exists>u. find (\<lambda>x. users_email x = loginDto_email ldto) (users (db w)) = Some u
    \<and> map_of (user r) ''id'' = Some (JString (users_id u))
    \<and> decode (accessToken (tokens r)) =
        \<lparr>payload_sub = users_id u, payload_email = Some (users_email u),
         payload_role = Some (users_role u), payload_jti = None\<rparr>
    \<and> decode (refreshToken (tokens r)) =
        \<lparr>payload_sub = users_id u, payload_email = Some (users_email u),
         payload_role = Some (users_role u), payload_jti = None\<rparr>
    \<and> options_secret (jwt_options (accessToken (tokens r))) = module_secret (jwtConfig e)
    \<and> options_secret (jwt_options (refreshToken (tokens r))) =
        refresh_secret (refreshTokenConfig e)"
    by blast
qed

subsection \<open>Claims\<close>

text \<open>
  C2. Whenever a user with the given email is stored, \<open>register\<close> fails with the
  conflict exception and its message, and the three tables are as they were: the only
  call it made is the lookup.
\<close>

theorem register_existing_email_conflict:
  assumes "\<exists>u\<in>set (users (db w)). users_email u = registerDto_email dto"
  shows "fst (register e dto w) = Inl (ConflictException ''User with this email already exists'')
    \<and> db (snd (register e dto w)) = db w
    \<and> calls_since w (snd (register e dto w)) = [Em_findOne]"
proof -
  obtain x where "find (\<lambda>u. users_email u = registerDto_email dto) (users (db w)) = Some x"
    using assms by (rule find_present)
  then have "register e dto w =
      (Inl (ConflictException ''User with this email already exists''), await Em_findOne w)"
    by (rule register_conflict)
  then show ?thesis
    by (simp add: await_def calls_since_def)
qed

theorem register_existing_email_conflict_witness:
  "(\<exists>u\<in>set (users (db example_world)). users_email u = registerDto_email register_alice)
   \<and> fst (register example_env register_alice example_world) =
       Inl (ConflictException ''User with this email already exists'')
   \<and> db (snd (register example_env register_alice example_world)) = db example_world"
proof -
  have h: "\<exists>u\<in>set (users (db example_world)). users_email u = registerDto_email register_alice"
    by (simp add: example_defs)
  from register_existing_email_conflict [OF h, of example_env] h show ?thesis
    by simp
qed

text \<open>
  C3. With no stored user of the given email, and with the store handing out primary
  keys that are not in use, \<open>register\<close> succeeds and adds exactly one row to each
  table: an organization whose member list is the new user's id, a user with role
  \<open>OWNER\<close> who is active and not email-verified, and a session of that user. Every
  earlier row stays as it was.
\<close>

theorem register_fresh_email_creates:
  assumes "\<forall>u\<in>set (users (db w)). users_email u \<noteq> registerDto_email dto"
    and "Organization_pk e \<notin> set (map organization_id (organizations (db w)))"
    and "Users_pk e \<notin> set (map users_id (users (db w)))"
    and "Session_pk e \<notin> set (map session_id (sessions (db w)))"
  shows "\<exists>r org usr ses.
      fst (register e dto w) = Inr r
    \<and> organizations (db (snd (register e dto w))) = organizations (db w) @ [org]
    \<and> users (db (snd (register e dto w))) = users (db w) @ [usr]
    \<and> sessions (db (snd (register e dto w))) = sessions (db w) @ [ses]
    \<and> users_email usr = registerDto_email dto
    \<and> users_role usr = OWNER \<and> users_isActive usr \<and> \<not> users_isEmailVerified usr
    \<and> users_organizationId usr = organization_id org
    \<and> organization_userIds org = Some [users_id usr]
    \<and> session_user ses = users_id usr"
proof -
  have none: "find (\<lambda>u. users_email u = registerDto_email dto) (users (db w)) = None"
    using assms(1) by (simp add: find_None_iff)
  let ?usr = "\<lparr>users_id = Users_pk e,
      users_email = registerDto_email dto,
      users_passwordHash = bcrypt_hash e (registerDto_password dto) 12,
      users_role = OWNER, users_isActive = True, users_isEmailVerified = False,
      users_createdAt = clock e 2, users_updatedAt = clock e 3,
      users_organizationId = Organization_pk e, users_projectIds = []\<rparr>"
  let ?org = "\<lparr>organization_id = Organization_pk e,
      organization_name = registerDto_organizationName dto,
      organization_createdAt = clock e 0, organization_updatedAt = clock e 1,
      organization_userIds = Some [Users_pk e]\<rparr>"
  have res: "\<exists>r. fst (register e dto w) = Inr r"
    using none by (simp add: register_def findOne_Users_def Let_def)
  have orgs: "organizations (db (snd (register e dto w))) = organizations (db w) @ [?org]"
    using none assms(2)
    by (simp add: register_def findOne_Users_def Let_def persistAndFlush_Organization_def
        persistAndFlush_Users_def persistAndFlush_Session_def await_def upsert_fresh upsert_last)
  have usrs: "users (db (snd (register e dto w))) = users (db w) @ [?usr]"
    using none assms(3)
    by (simp add: register_def findOne_Users_def Let_def persistAndFlush_Organization_def
        persistAndFlush_Users_def persistAndFlush_Session_def await_def upsert_fresh)
  have sess: "\<exists>ses. sessions (db (snd (register e dto w))) = sessions (db w) @ [ses]
      \<and> session_user ses = Users_pk e"
    using none assms(4)
    by (simp add: register_def findOne_Users_def Let_def persistAndFlush_Organization_def
        persistAndFlush_Users_def persistAndFlush_Session_def await_def upsert_fresh)
  from res obtain r where r: "fst (register e dto w) = Inr r" ..
  from sess obtain ses where ses: "sessions (db (snd (register e dto w))) = sessions (db w) @ [ses]"
    "session_user ses = Users_pk e" by blast
  show ?thesis
    apply (rule exI [of _ r], rule exI [of _ ?org], rule exI [of _ ?usr], rule exI [of _ ses])
    using r orgs usrs ses by simp
qed

theorem register_fresh_email_creates_witness:
  "(\<exists>org usr ses.
      organizations (db (snd (register example_env register_carol example_world))) = [acme, org]
    \<and> users (db (snd (register example_env register_carol example_world))) = [alice, bob, usr]
    \<and> sessions (db (snd (register example_env register_carol example_world))) = [ses]
    \<and> users_role usr = OWNER \<and> users_isActive usr \<and> \<not> users_isEmailVerified usr
    \<and> organization_userIds org = Some [users_id usr]
    \<and> session_user ses = users_id usr)"
proof -
  have h1: "\<forall>u\<in>set (users (db example_world)). users_email u \<noteq> registerDto_email register_carol"
    by (simp add: example_defs)
  have h2: "Organization_pk example_env
      \<notin> set (map organization_id (organizations (db example_world)))"
    by (simp add: example_defs)
  have h3: "Users_pk example_env \<notin> set (map users_id (users (db example_world)))"
    by (simp add: example_defs)
  have h4: "Session_pk example_env \<notin> set (map session_id (sessions (db example_world)))"
    by (simp add: example_defs)
  have w: "organizations (db example_world) = [acme]" "users (db example_world) = [alice, bob]"
    "sessions (db example_world) = []"
    by (simp_all add: example_world_def)
  from register_fresh_email_creates [OF h1 h2 h3 h4] show ?thesis
    unfolding w by auto
qed

text \<open>
  C4. With no stored user of the given email, \<open>login\<close> fails with the unauthorized
  exception "User not found". The lookup is the only call it has made: the password is
  not compared, and nothing is written.
\<close>

theorem login_unknown_email_unauthorized:
  assumes "\<forall>u\<in>set (users (db w)). users_email u \<noteq> loginDto_email dto"
  shows "fst (login e dto w) = Inl (UnauthorizedException ''User not found'')
    \<and> calls_since w (snd (login e dto w)) = [Em_findOne]
    \<and> Bcrypt_compare \<notin> set (calls_since w (snd (login e dto w)))
    \<and> db (snd (login e dto w)) = db w"
proof -
  have "find (\<lambda>u. users_email u = loginDto_email dto) (users (db w)) = None"
    using assms by (simp add: find_None_iff)
  then have "login e dto w =
      (Inl (UnauthorizedException ''User not found''), await Em_findOne w)"
    by (rule login_not_found)
  then show ?thesis
    by (simp add: await_def calls_since_def)
qed

theorem login_unknown_email_unauthorized_witness:
  "fst (login example_env login_carol example_world) =
      Inl (UnauthorizedException ''User not found'')
   \<and> Bcrypt_compare \<notin> set (calls_since example_world
        (snd (login example_env login_carol example_world)))"
proof -
  have h: "\<forall>u\<in>set (users (db example_world)). users_email u \<noteq> loginDto_email login_carol"
    by (simp add: example_defs)
  from login_unknown_email_unauthorized [OF h, of example_env] show ?thesis
    by simp
qed

text \<open>
  C5. Emails are unique in the store. Then for every stored user who is not active, a
  login with that user's email fails with the unauthorized exception "User account is
  deactivated", whatever the password and whatever \<^verbatim>\<open>bcrypt.compare\<close> would answer:
  the comparison is not reached and nothing is written.
\<close>

theorem login_inactive_unauthorized:
  assumes "distinct (map users_email (users (db w)))"
    and "u \<in> set (users (db w))"
    and "\<not> users_isActive u"
    and "loginDto_email dto = users_email u"
  shows "fst (login e dto w) = Inl (UnauthorizedException ''User account is deactivated'')
    \<and> calls_since w (snd (login e dto w)) = [Em_findOne]
    \<and> db (snd (login e dto w)) = db w"
proof -
  have "find (\<lambda>x. users_email x = loginDto_email dto) (users (db w)) = Some u"
    using assms(1,2,4) by (simp add: find_by_unique_key)
  then have "login e dto w =
      (Inl (UnauthorizedException ''User account is deactivated''), await Em_findOne w)"
    using assms(3) by (rule login_deactivated)
  then show ?thesis
    by (simp add: await_def calls_since_def)
qed

theorem login_inactive_unauthorized_witness:
  "bcrypt_compare example_env (loginDto_password login_bob) (users_passwordHash bob)
   \<and> fst (login example_env login_bob example_world) =
       Inl (UnauthorizedException ''User account is deactivated'')"
proof -
  have h1: "distinct (map users_email (users (db example_world)))"
    by (simp add: example_defs)
  have h2: "bob \<in> set (users (db example_world))"
    by (simp add: example_defs)
  have h3: "\<not> users_isActive bob"
    by (simp add: bob_def)
  have h4: "loginDto_email login_bob = users_email bob"
    by (simp add: example_defs)
  have "bcrypt_compare example_env (loginDto_password login_bob) (users_passwordHash bob)"
    by (simp add: example_defs)
  with login_inactive_unauthorized [OF h1 h2 h3 h4, of example_env] show ?thesis
    by simp
qed

text \<open>
  C6. Emails are unique in the store. Then a login with the email of a stored, active
  user and a password that \<^verbatim>\<open>bcrypt.compare\<close> accepts against the stored hash succeeds,
  and its access token and its refresh token both decode to claims whose subject is the
  id of that user.
\<close>

theorem login_tokens_same_subject:
  assumes "distinct (map users_email (users (db w)))"
    and "u \<in> set (users (db w))"
    and "users_isActive u"
    and "loginDto_email dto = users_email u"
    and "bcrypt_compare e (loginDto_password dto) (users_passwordHash u)"
  shows "\<exists>r. fst (login e dto w) = Inr r
    \<and> payload_sub (decode (accessToken (tokens r))) = users_id u
    \<and> payload_sub (decode (refreshToken (tokens r))) = users_id u"
proof -
  have "find (\<lambda>x. users_email x = loginDto_email dto) (users (db w)) = Some u"
    using assms(1,2,4) by (simp add: find_by_unique_key)
  from login_success [OF this assms(3,5)] show ?thesis
    by (simp add: generateTokens_def Let_def signAsync_def decode_def)
qed

theorem login_tokens_same_subject_witness:
  "\<exists>r. fst (login example_env login_alice example_world) = Inr r
    \<and> payload_sub (decode (accessToken (tokens r))) = ''u1''
    \<and> payload_sub (decode (refreshToken (tokens r))) = ''u1''"
proof -
  have h1: "distinct (map users_email (users (db example_world)))"
    by (simp add: example_defs)
  have h2: "alice \<in> set (users (db example_world))"
    by (simp add: example_defs)
  have h3: "users_isActive alice"
    by (simp add: alice_def)
  have h4: "loginDto_email login_alice = users_email alice"
    by (simp add: example_defs)
  have h5: "bcrypt_compare example_env (loginDto_password login_alice) (users_passwordHash alice)"
    by (simp add: example_defs)
  have "users_id alice = ''u1''"
    by (simp add: alice_def)
  with login_tokens_same_subject [OF h1 h2 h3 h4 h5] show ?thesis
    by simp
qed

text \<open>
  C7. The claim is that both tokens of every issued pair, in the registration path as in
  the login path, are signed tokens whose claims contain the subject, the email and the
  role. It holds of \<open>login\<close>, whose \<open>generateTokens\<close> signs all three into both tokens
  (\<open>issued_tokens_payloads\<close>), and the interface \<^verbatim>\<open>JwtPayload\<close> of the source
  declares all three. It fails of \<open>register\<close>, which signs payloads of its own. Here
  \<open>register\<close> is run on the example store for a new email: the claims of its access
  token hold the subject alone, those of its refresh token the subject and a token id,
  and neither holds an email or a role.
\<close>

theorem register_tokens_without_email_and_role:
  "(case fst (register example_env register_carol example_world) of
      Inl x \<Rightarrow> None
    | Inr r \<Rightarrow> Some (decode (accessToken (tokens r)), decode (refreshToken (tokens r))))
   = Some (\<lparr>payload_sub = ''u3'', payload_email = None,
            payload_role = None, payload_jti = None\<rparr>,
           \<lparr>payload_sub = ''u3'', payload_email = None,
            payload_role = None, payload_jti = Some ''uuid''\<rparr>)"
  by (simp add: register_def findOne_Users_def Let_def signAsync_def decode_def example_defs)

text \<open>
  C8. A successful \<open>register\<close> adds exactly one session row (the store handing out a
  session key that is not in use): the session of the new user, not revoked, whose
  expiry is the clock as \<^verbatim>\<open>Date.now()\<close> read it when the session was made plus seven
  days of milliseconds. Its \<^verbatim>\<open>createdAt\<close> is the next reading of the clock. \<open>login\<close>,
  whether it succeeds or fails, leaves the session table as it was.
\<close>

theorem session_created_by_register_only:
  assumes "fst (register e rdto w) = Inr r"
    and "Session_pk e \<notin> set (map session_id (sessions (db w)))"
  shows "(\<exists>s. sessions (db (snd (register e rdto w))) = sessions (db w) @ [s]
      \<and> session_user s = Users_pk e
      \<and> session_expiresAt s = clock e 4 + 7 * (24 * 60 * 60 * 1000)
      \<and> session_createdAt s = clock e 5
      \<and> \<not> session_revoked s)
    \<and> sessions (db (snd (login e ldto w))) = sessions (db w)"
proof
  have none: "find (\<lambda>u. users_email u = registerDto_email rdto) (users (db w)) = None"
    using assms(1)
    by (cases "find (\<lambda>u. users_email u = registerDto_email rdto) (users (db w))")
       (simp_all add: register_conflict)
  then show "\<exists>s. sessions (db (snd (register e rdto w))) = sessions (db w) @ [s]
      \<and> session_user s = Users_pk e
      \<and> session_expiresAt s = clock e 4 + 7 * (24 * 60 * 60 * 1000)
      \<and> session_createdAt s = clock e 5
      \<and> \<not> session_revoked s"
    using assms(2)
    by (simp add: register_def findOne_Users_def Let_def persistAndFlush_Organization_def
        persistAndFlush_Users_def persistAndFlush_Session_def await_def upsert_fresh)
next
  show "sessions (db (snd (login e ldto w))) = sessions (db w)"
    by (simp add: login_def findOne_Users_def Let_def generateTokens_def
        persistAndFlush_Users_def await_def split: option.splits)
qed

theorem session_created_by_register_only_witness:
  "(\<exists>s. sessions (db (snd (register example_env register_carol example_world))) = [s]
      \<and> session_user s = ''u3''
      \<and> session_expiresAt s = 1004 + 604800000
      \<and> \<not> session_revoked s)
   \<and> sessions (db (snd (login example_env login_alice example_world))) = []"
proof -
  obtain r where r: "fst (register example_env register_carol example_world) = Inr r"
    by (simp add: register_def findOne_Users_def Let_def example_defs)
  have h: "Session_pk example_env \<notin> set (map session_id (sessions (db example_world)))"
    by (simp add: example_defs)
  have w: "sessions (db example_world) = []"
    by (simp add: example_world_def)
  have env: "Users_pk example_env = ''u3''" "clock example_env 4 = 1004"
    by (simp_all add: example_env_def)
  from session_created_by_register_only [OF r h, of login_alice] show ?thesis
    unfolding w env by auto
qed

text \<open>
  C9. Primary keys are unique in the store. Then \<open>validateUser\<close> returns the stored
  user for the id of every active user, null for the id of every user who is not
  active, and null for an id no stored user has. It has no path that throws: its
  result is the one the lookup gives, and it writes nothing.
\<close>

theorem validateUser_active_or_null:
  assumes "distinct (map users_id (users (db w)))"
  shows "(\<forall>u\<in>set (users (db w)). users_isActive u \<longrightarrow>
            fst (validateUser (users_id u) w) = Some u)
    \<and> (\<forall>u\<in>set (users (db w)). \<not> users_isActive u \<longrightarrow>
            fst (validateUser (users_id u) w) = None)
    \<and> ((\<forall>u\<in>set (users (db w)). users_id u \<noteq> i) \<longrightarrow> fst (validateUser i w) = None)
    \<and> db (snd (validateUser i w)) = db w"
proof (intro conjI ballI impI)
  fix u
  assume "u \<in> set (users (db w))" and "users_isActive u"
  then show "fst (validateUser (users_id u) w) = Some u"
    using assms by (simp add: validateUser_def findOne_Users_def find_by_unique_key_and)
next
  fix u
  assume "u \<in> set (users (db w))" and "\<not> users_isActive u"
  then show "fst (validateUser (users_id u) w) = None"
    using assms by (simp add: validateUser_def findOne_Users_def find_by_unique_key_and)
next
  assume "\<forall>u\<in>set (users (db w)). users_id u \<noteq> i"
  then show "fst (validateUser i w) = None"
    by (auto simp: validateUser_def findOne_Users_def find_None_iff)
next
  show "db (snd (validateUser i w)) = db w"
    by (simp add: validateUser_def findOne_Users_def await_def)
qed

theorem validateUser_active_or_null_witness:
  "fst (validateUser ''u1'' example_world) = Some alice
   \<and> fst (validateUser ''u2'' example_world) = None
   \<and> fst (validateUser ''u9'' example_world) = None"
proof -
  have h: "distinct (map users_id (users (db example_world)))"
    by (simp add: example_defs)
  have w: "users (db example_world) = [alice, bob]"
    by (simp add: example_world_def)
  have ids: "users_id alice = ''u1''" "users_id bob = ''u2''"
    and flags: "users_isActive alice" "\<not> users_isActive bob"
    by (simp_all add: alice_def bob_def)
  from validateUser_active_or_null [OF h, of "''u9''"] show ?thesis
    unfolding w using ids flags by simp
qed

text \<open>
  C10. A \<open>login\<close> that fails has written nothing: the three tables are as they were
  and \<^verbatim>\<open>persistAndFlush\<close> is not among the calls it made. Its exception is one of the
  three unauthorized exceptions.
\<close>

theorem login_failure_writes_nothing:
  assumes "fst (login e dto w) = Inl x"
  shows "db (snd (login e dto w)) = db w
    \<and> Em_persistAndFlush \<notin> set (calls_since w (snd (login e dto w)))
    \<and> x \<in> {UnauthorizedException ''User not found'',
           UnauthorizedException ''User account is deactivated'',
           UnauthorizedException ''Password is incorrect''}"
proof (cases "find (\<lambda>u. users_email u = loginDto_email dto) (users (db w))")
  case None
  from login_not_found [OF this, of e] assms show ?thesis
    by (auto simp: await_def calls_since_def)
next
  case (Some u)
  show ?thesis
  proof (cases "users_isActive u")
    case False
    from login_deactivated [OF Some this, of e] assms show ?thesis
      by (auto simp: await_def calls_since_def)
  next
    case True
    show ?thesis
    proof (cases "bcrypt_compare e (loginDto_password dto) (users_passwordHash u)")
      case False
      from login_wrong_password [OF Some True this] assms show ?thesis
        by (auto simp: await_def calls_since_def)
    next
      case valid: True
      from login_success [OF Some True valid] assms show ?thesis
        by simp
    qed
  qed
qed

theorem login_failure_writes_nothing_witness:
  "fst (login example_env login_alice_wrong example_world) =
      Inl (UnauthorizedException ''Password is incorrect'')
   \<and> db (snd (login example_env login_alice_wrong example_world)) = db example_world
   \<and> Em_persistAndFlush \<notin> set (calls_since example_world
        (snd (login example_env login_alice_wrong example_world)))"
proof -
  have h: "fst (login example_env login_alice_wrong example_world) =
      Inl (UnauthorizedException ''Password is incorrect'')"
    by (simp add: login_def findOne_Users_def Let_def example_defs)
  from login_failure_writes_nothing [OF h] h show ?thesis
    by simp
qed

text \<open>
  C1. The claim is that the user of every successful \<open>register\<close> and \<open>login\<close> has no
  \<^verbatim>\<open>passwordHash\<close> property. It holds of \<open>login\<close>
  (\<open>login_user_without_passwordHash\<close>) and fails of \<open>register\<close>, which destructures
  with no named property and so returns every property of the entity
  (\<open>register_user_with_passwordHash\<close>). Here \<open>register\<close> is run on the example store
  for a new email: the returned user holds the hash of the password.
\<close>

theorem register_returns_passwordHash:
  "(case fst (register example_env register_carol example_world) of
      Inl x \<Rightarrow> None
    | Inr r \<Rightarrow> map_of (user r) ''passwordHash'')
   = Some (JString ''$2a$pw'')"
  by (simp add: register_def findOne_Users_def Let_def object_rest_def Users_properties_def
      example_defs)

end
